theory Spec2Isabelle
  imports Main "HOL-Library.AList" "HOL-Library.Sublist"
begin

section \<open>The service worker \<open>sw.js\<close>: data model\<close>

text \<open>
  \<open>sw.js\<close> registers three event handlers (install, activate, fetch) that run against
  two services of the hosting browser: the network (\<open>fetch\<close>) and the origin's cache
  storage (\<open>caches\<close>). The handlers are embedded as functions that take the cache storage
  and return it updated; the host's operations are embedded after the Service Worker
  specification of the Cache interface, restricted to what is modelled of a request
  (method, URL, mode) and of a response (status, body). Headers are not modelled.
\<close>

text \<open>The two constants of lines 2 to 8.\<close>

definition CACHE_NAME :: string where
  "CACHE_NAME = ''celesys-ai-v2''"

definition STATIC_ASSETS :: "string list" where
  "STATIC_ASSETS = [''/'', ''/manifest.json'', ''/icons/icon-192.png'', ''/icons/icon-512.png'']"

text \<open>
  A request's URL as \<open>new URL(event.request.url)\<close> parses it: the origin, the path
  and the query string. The fragment is left out, as cache matching ignores it.
\<close>

record url =
  origin :: string
  pathname :: string
  search :: string

record request =
  "method" :: string
  url :: url
  mode :: string

record response =
  status :: nat
  body :: string

text \<open>
  A settled promise: fulfilled with a value or rejected with an error. The network
  is a function from the request to the settled promise that \<open>fetch\<close> returns for it:
  any HTTP response fulfils it, whatever its status, and a network-level failure
  rejects it with a \<open>TypeError\<close>.
\<close>

datatype error = TypeError

datatype 'a promise = Fulfilled 'a | Rejected error

type_synonym network = "request \<Rightarrow> response promise"

text \<open>
  A cache is a list of request/response pairs in insertion order; the cache storage
  is the list of the origin's named caches in creation order.
\<close>

type_synonym cache = "(request \<times> response) list"

type_synonym cache_storage = "(string \<times> cache) list"

text \<open>
  The operations a handler performs on its host, in the order in which they complete
  (\<open>skipWaiting\<close> and \<open>clients.claim\<close> are recorded where they are called).
  \<open>Settled\<close> marks the moment at which the promise that the handler gave to
  \<open>event.respondWith\<close> or \<open>event.waitUntil\<close> settles: the host keeps the event alive
  up to that moment and no longer. Opening, reading, listing and deleting caches do not
  fail here; \<open>put\<close> and \<open>addAll\<close> can be rejected.
\<close>

datatype host_op =
    NetFetch request
  | CachesMatch request
  | CachesOpen string
  | CachePut string request response
  | CachePutRejected string request response
  | CacheAddAll string "string list"
  | CacheAddAllRejected string "string list"
  | CachesKeys
  | CachesDelete string
  | ConsoleWarn
  | SkipWaiting
  | ClientsClaim
  | Settled

text \<open>
  What one run of a handler leaves behind: its outcome, the cache storage once every
  operation that the handler started has completed (the worker is not stopped in
  between), and the trace of those operations.
\<close>

record 'a run =
  outcome :: 'a
  storage :: cache_storage
  trace :: "host_op list"

section \<open>The host: cache storage\<close>

text \<open>
  A string given where a request is expected (\<open>caches.match('/')\<close>, the entries of
  \<open>cache.addAll\<close>) is resolved against the worker's own origin and becomes a GET
  request. The strings of \<open>sw.js\<close> are paths without a query.
\<close>

definition request_of_path :: "string \<Rightarrow> string \<Rightarrow> request" where
  "request_of_path self_origin p =
     \<lparr>method = ''GET'', url = \<lparr>origin = self_origin, pathname = p, search = ''''\<rparr>, mode = ''cors''\<rparr>"

text \<open>
  A stored request \<open>k\<close> answers a query \<open>q\<close> when the query is a GET request and the
  URLs are equal (the default options of \<open>match\<close>).
\<close>

definition request_matches :: "request \<Rightarrow> request \<Rightarrow> bool" where
  "request_matches q k \<longleftrightarrow> method q = ''GET'' \<and> url k = url q"

definition cache_match :: "cache \<Rightarrow> request \<Rightarrow> response option" where
  "cache_match c q = map_option snd (find (\<lambda>(k, v). request_matches q k) c)"

text \<open>\<open>caches.match\<close> asks every cache of the origin, in creation order.\<close>

fun caches_match :: "cache_storage \<Rightarrow> request \<Rightarrow> response option" where
  "caches_match [] q = None"
| "caches_match ((n, c) # rest) q =
     (case cache_match c q of Some r \<Rightarrow> Some r | None \<Rightarrow> caches_match rest q)"

text \<open>\<open>caches.open\<close> returns the named cache and creates it, empty, when it is absent.\<close>

definition caches_open :: "string \<Rightarrow> cache_storage \<Rightarrow> cache \<times> cache_storage" where
  "caches_open n st =
     (case map_of st n of Some c \<Rightarrow> (c, st) | None \<Rightarrow> ([], st @ [(n, [])]))"

text \<open>
  \<open>cache.put\<close> rejects a request that is not a GET and a response of status 206;
  otherwise it removes the entries that the request matches and appends the pair.
\<close>

definition cache_put :: "cache \<Rightarrow> request \<Rightarrow> response \<Rightarrow> cache promise" where
  "cache_put c k v =
     (if method k \<noteq> ''GET'' \<or> status v = 206 then Rejected TypeError
      else Fulfilled (filter (\<lambda>(k', v'). \<not> request_matches k k') c @ [(k, v)]))"

text \<open>
  \<open>cache.addAll\<close> fetches every entry and is all-or-nothing: when one fetch fails,
  or one response has a status outside 200..299 or the status 206, it rejects and
  writes nothing; otherwise every pair is written.
\<close>

definition addable :: "response promise \<Rightarrow> bool" where
  "addable p =
     (case p of Fulfilled r \<Rightarrow> 200 \<le> status r \<and> status r \<le> 299 \<and> status r \<noteq> 206
      | Rejected e \<Rightarrow> False)"

fun put_all :: "(request \<times> response promise) list \<Rightarrow> cache \<Rightarrow> cache" where
  "put_all [] c = c"
| "put_all ((k, Fulfilled v) # rest) c =
     put_all rest (filter (\<lambda>(k', v'). \<not> request_matches k k') c @ [(k, v)])"
| "put_all ((k, Rejected e) # rest) c = put_all rest c"

definition cache_addAll :: "string \<Rightarrow> network \<Rightarrow> string list \<Rightarrow> cache \<Rightarrow> cache promise" where
  "cache_addAll self_origin net paths c =
     (let requests = map (request_of_path self_origin) paths;
          fetched = map (\<lambda>k. (k, net k)) requests
      in if list_all (\<lambda>(k, p). addable p) fetched then Fulfilled (put_all fetched c)
         else Rejected TypeError)"

definition caches_keys :: "cache_storage \<Rightarrow> string list" where
  "caches_keys st = map fst st"

definition caches_delete :: "string \<Rightarrow> cache_storage \<Rightarrow> cache_storage" where
  "caches_delete n st = AList.delete n st"

text \<open>The content of the cache named \<open>CACHE_NAME\<close>; empty when there is no such cache.\<close>

definition named_cache :: "cache_storage \<Rightarrow> cache" where
  "named_cache st = (case map_of st CACHE_NAME of Some c \<Rightarrow> c | None \<Rightarrow> [])"

section \<open>The install handler (lines 11 to 20)\<close>

text \<open>
  The promise given to \<open>event.waitUntil\<close> opens the cache and adds the manifest; the
  \<open>catch\<close> turns a rejection of \<open>addAll\<close> into a warning, so the promise is always
  fulfilled. \<open>self.skipWaiting()\<close> is called before any of this completes.
\<close>

definition install :: "string \<Rightarrow> network \<Rightarrow> cache_storage \<Rightarrow> unit promise run" where
  "install self_origin net st =
     (let (cache, st1) = caches_open CACHE_NAME st in
      case cache_addAll self_origin net STATIC_ASSETS cache of
        Fulfilled cache' \<Rightarrow>
          \<lparr>outcome = Fulfilled (),
           storage = AList.update CACHE_NAME cache' st1,
           trace = [SkipWaiting, CachesOpen CACHE_NAME, CacheAddAll CACHE_NAME STATIC_ASSETS, Settled]\<rparr>
      | Rejected err \<Rightarrow>
          \<lparr>outcome = Fulfilled (),
           storage = st1,
           trace = [SkipWaiting, CachesOpen CACHE_NAME, CacheAddAllRejected CACHE_NAME STATIC_ASSETS,
                    ConsoleWarn, Settled]\<rparr>)"

section \<open>The activate handler (lines 23 to 30)\<close>

definition activate :: "cache_storage \<Rightarrow> unit promise run" where
  "activate st =
     (let keys = caches_keys st;
          old = filter (\<lambda>k. k \<noteq> CACHE_NAME) keys
      in \<lparr>outcome = Fulfilled (),
          storage = fold caches_delete old st,
          trace = [ClientsClaim, CachesKeys] @ map CachesDelete old @ [Settled]\<rparr>)"

section \<open>The fetch handler (lines 33 to 67)\<close>

text \<open>
  The handler either returns without calling \<open>event.respondWith\<close>, and the browser
  performs the request as if there were no worker, or gives \<open>respondWith\<close> a promise,
  which settles with a response or with \<open>undefined\<close> (\<open>None\<close>).
\<close>

datatype fetch_outcome = NotIntercepted | RespondWith "response option promise"

text \<open>What the requesting page gets: the host turns \<open>undefined\<close> and a rejection into a network error.\<close>

datatype resolution = PassThrough | Served response | NetworkError

fun resolve :: "fetch_outcome \<Rightarrow> resolution" where
  "resolve NotIntercepted = PassThrough"
| "resolve (RespondWith (Fulfilled (Some r))) = Served r"
| "resolve (RespondWith (Fulfilled None)) = NetworkError"
| "resolve (RespondWith (Rejected e)) = NetworkError"

text \<open>\<open>response.clone()\<close>: a second response with the same status and body.\<close>

definition clone :: "response \<Rightarrow> response" where
  "clone r = r"

text \<open>
  Lines 48 and 61, \<open>caches.open(CACHE_NAME).then(cache => cache.put(event.request, clone))\<close>.
  The promise of this chain is dropped: nothing waits for it and nothing catches its
  rejection, so its operations complete after the callback that started it has returned.
\<close>

definition open_then_put :: "request \<Rightarrow> response \<Rightarrow> cache_storage \<Rightarrow> cache_storage \<times> host_op list" where
  "open_then_put rq cl st =
     (let (cache, st1) = caches_open CACHE_NAME st in
      case cache_put cache rq cl of
        Fulfilled cache' \<Rightarrow>
          (AList.update CACHE_NAME cache' st1, [CachesOpen CACHE_NAME, CachePut CACHE_NAME rq cl])
      | Rejected err \<Rightarrow>
          (st1, [CachesOpen CACHE_NAME, CachePutRejected CACHE_NAME rq cl]))"

text \<open>Lines 43 to 54: network first, then the cache, then the cached root page.\<close>

definition network_first :: "string \<Rightarrow> network \<Rightarrow> request \<Rightarrow> cache_storage \<Rightarrow> fetch_outcome run" where
  "network_first self_origin net rq st =
     (case net rq of
        Fulfilled response \<Rightarrow>
          (let (st', put_ops) = open_then_put rq (clone response) st
           in \<lparr>outcome = RespondWith (Fulfilled (Some response)),
               storage = st',
               trace = [NetFetch rq, Settled] @ put_ops\<rparr>)
      | Rejected err \<Rightarrow>
          (case caches_match st rq of
             Some r \<Rightarrow>
               \<lparr>outcome = RespondWith (Fulfilled (Some r)),
                storage = st,
                trace = [NetFetch rq, CachesMatch rq, Settled]\<rparr>
           | None \<Rightarrow>
               \<lparr>outcome = RespondWith (Fulfilled (caches_match st (request_of_path self_origin ''/''))),
                storage = st,
                trace = [NetFetch rq, CachesMatch rq,
                         CachesMatch (request_of_path self_origin ''/''), Settled]\<rparr>))"

text \<open>
  Lines 57 to 66. \<open>fetched\<close> is the promise of line 59 to 63; \<open>cached || fetched\<close>
  is the cached response when there is one. With a cached response the promise given to
  \<open>respondWith\<close> settles before the network answers.
\<close>

definition stale_while_revalidate :: "network \<Rightarrow> request \<Rightarrow> cache_storage \<Rightarrow> fetch_outcome run" where
  "stale_while_revalidate net rq st =
     (let cached = caches_match st rq;
          fetched = (case net rq of
                       Fulfilled response \<Rightarrow> Fulfilled (Some response)
                     | Rejected err \<Rightarrow> Fulfilled cached);
          (st', put_ops) = (case net rq of
                              Fulfilled response \<Rightarrow> open_then_put rq (clone response) st
                            | Rejected err \<Rightarrow> (st, []))
      in \<lparr>outcome = RespondWith (case cached of Some c \<Rightarrow> Fulfilled (Some c) | None \<Rightarrow> fetched),
          storage = st',
          trace = (case cached of
                     Some c \<Rightarrow> [CachesMatch rq, Settled, NetFetch rq]
                   | None \<Rightarrow> [CachesMatch rq, NetFetch rq, Settled]) @ put_ops\<rparr>)"

definition fetch_handler :: "string \<Rightarrow> network \<Rightarrow> request \<Rightarrow> cache_storage \<Rightarrow> fetch_outcome run" where
  "fetch_handler self_origin net rq st =
     (if method rq \<noteq> ''GET'' then \<lparr>outcome = NotIntercepted, storage = st, trace = []\<rparr>
      else if prefix ''/api/'' (pathname (url rq))
        then \<lparr>outcome = NotIntercepted, storage = st, trace = []\<rparr>
      else if mode rq = ''navigate'' then network_first self_origin net rq st
      else stale_while_revalidate net rq st)"

section \<open>The worker's life as a state machine\<close>

text \<open>
  The host delivers install, activate and fetch events; each carries the network as it
  answers during that event. A state is the cache storage. The reachable states start
  from any storage that has no cache of the current name yet.
\<close>

datatype event = Install network | Activate | Fetch network request

fun handle :: "string \<Rightarrow> event \<Rightarrow> cache_storage \<Rightarrow> cache_storage" where
  "handle self_origin (Install net) st = storage (install self_origin net st)"
| "handle self_origin Activate st = storage (activate st)"
| "handle self_origin (Fetch net rq) st = storage (fetch_handler self_origin net rq st)"

inductive reachable :: "string \<Rightarrow> cache_storage \<Rightarrow> bool" for self_origin :: string where
  initial: "CACHE_NAME \<notin> set (caches_keys st) \<Longrightarrow> reachable self_origin st"
| step: "reachable self_origin st \<Longrightarrow> reachable self_origin (handle self_origin ev st)"

text \<open>
  The invariant of the named cache: every key is a GET request whose path does not
  start with \<open>/api/\<close>.
\<close>

definition cacheable_key :: "request \<Rightarrow> bool" where
  "cacheable_key k \<longleftrightarrow> method k = ''GET'' \<and> \<not> prefix ''/api/'' (pathname (url k))"

definition named_cache_inv :: "cache_storage \<Rightarrow> bool" where
  "named_cache_inv st \<longleftrightarrow> list_all (\<lambda>(k, v). cacheable_key k) (named_cache st)"

section \<open>Sample inputs\<close>

text \<open>Requests, responses and networks at which the theorems below are instantiated.\<close>

definition sample_origin :: string where
  "sample_origin = ''https://celesys.example''"

definition sample_request :: "string \<Rightarrow> string \<Rightarrow> string \<Rightarrow> request" where
  "sample_request m p md =
     \<lparr>method = m, url = \<lparr>origin = sample_origin, pathname = p, search = ''''\<rparr>, mode = md\<rparr>"

definition sample_response :: "nat \<Rightarrow> string \<Rightarrow> response" where
  "sample_response code text = \<lparr>status = code, body = text\<rparr>"

definition serving :: "response \<Rightarrow> network" where
  "serving r rq = Fulfilled r"

definition offline :: network where
  "offline rq = Rejected TypeError"


section \<open>Facts about the cache operations\<close>






lemma named_cache_update: "named_cache (AList.update CACHE_NAME c st) = c"
  by (simp add: named_cache_def update_conv')

lemma named_cache_open: "named_cache (snd (caches_open CACHE_NAME st)) = named_cache st"
  by (auto simp: caches_open_def named_cache_def split: option.splits)

lemma fst_caches_open: "fst (caches_open CACHE_NAME st) = named_cache st"
  by (auto simp: caches_open_def named_cache_def split: option.splits)

lemma named_cache_absent:
  assumes "CACHE_NAME \<notin> set (caches_keys st)"
  shows "named_cache st = []"
proof -
  have "map_of st CACHE_NAME = None"
    using assms by (simp add: caches_keys_def map_of_eq_None_iff)
  then show ?thesis
    by (simp add: named_cache_def)
qed

lemma open_then_put_stored:
  assumes "method rq = ''GET''" "status cl \<noteq> 206"
  shows "named_cache (fst (open_then_put rq cl st)) =
           filter (\<lambda>(k', v'). \<not> request_matches rq k') (named_cache st) @ [(rq, cl)]"
    and "snd (open_then_put rq cl st) = [CachesOpen CACHE_NAME, CachePut CACHE_NAME rq cl]"
  using assms fst_caches_open[of st]
  by (auto simp: open_then_put_def cache_put_def named_cache_update split: prod.splits)

lemma open_then_put_rejected:
  assumes "status cl = 206"
  shows "named_cache (fst (open_then_put rq cl st)) = named_cache st"
    and "snd (open_then_put rq cl st) = [CachesOpen CACHE_NAME, CachePutRejected CACHE_NAME rq cl]"
  using assms named_cache_open[of st]
  by (auto simp: open_then_put_def cache_put_def split: prod.splits)




lemma put_all_keys:
  assumes "list_all (\<lambda>(k, v). P k) c" and "\<forall>(k, p) \<in> set kvs. P k"
  shows "list_all (\<lambda>(k, v). P k) (put_all kvs c)"
  using assms
  by (induction kvs c rule: put_all.induct) (auto simp: list_all_iff)

section \<open>Facts about the handlers\<close>

lemma swr_storage_on_success:
  assumes "net rq = Fulfilled resp"
  shows "storage (stale_while_revalidate net rq st) = fst (open_then_put rq resp st)"
    and "trace (stale_while_revalidate net rq st) =
           (case caches_match st rq of
              Some c \<Rightarrow> [CachesMatch rq, Settled, NetFetch rq]
            | None \<Rightarrow> [CachesMatch rq, NetFetch rq, Settled]) @ snd (open_then_put rq resp st)"
  using assms by (simp_all add: stale_while_revalidate_def clone_def Let_def split: prod.splits)

lemma network_first_on_success:
  assumes "net rq = Fulfilled resp"
  shows "storage (network_first self_origin net rq st) = fst (open_then_put rq resp st)"
    and "trace (network_first self_origin net rq st) = [NetFetch rq, Settled] @ snd (open_then_put rq resp st)"
    and "outcome (network_first self_origin net rq st) = RespondWith (Fulfilled (Some resp))"
  using assms by (simp_all add: network_first_def clone_def Let_def split: prod.splits)

lemma install_named_cache:
  "named_cache (storage (install self_origin net st)) =
     (if list_all (\<lambda>p. addable (net (request_of_path self_origin p))) STATIC_ASSETS
      then put_all (map (\<lambda>p. (request_of_path self_origin p, net (request_of_path self_origin p))) STATIC_ASSETS)
             (named_cache st)
      else named_cache st)"
  using fst_caches_open[of st] named_cache_open[of st]
  by (auto simp: install_def cache_addAll_def Let_def named_cache_update list_all_iff comp_def
      split: prod.splits promise.splits if_splits)


lemma fold_caches_delete:
  "fold caches_delete ks st = filter (\<lambda>(n, c). n \<notin> set ks) st"
proof (induction ks arbitrary: st)
  case Nil
  then show ?case by simp
next
  case (Cons k ks)
  have "filter (\<lambda>(n, c). n \<notin> set ks) (filter (\<lambda>(n, c). k \<noteq> n) st)
      = filter (\<lambda>(n, c). n \<notin> set (k # ks)) st"
    by (induction st) auto
  with Cons show ?case
    by (simp add: caches_delete_def AList.delete_eq)
qed

lemma activate_storage:
  "storage (activate st) = filter (\<lambda>(n, c). n = CACHE_NAME) st"
proof -
  have "filter (\<lambda>(n, c). n \<notin> set (filter (\<lambda>k. k \<noteq> CACHE_NAME) (map fst st'))) st
      = filter (\<lambda>(n, c). n = CACHE_NAME) st" if "set st \<subseteq> set st'" for st'
    using that by (induction st) force+
  then show ?thesis
    by (simp add: activate_def Let_def fold_caches_delete caches_keys_def)
qed

lemma named_cache_activate: "named_cache (storage (activate st)) = named_cache st"
proof -
  have "map_of (filter (\<lambda>(n, c). n = CACHE_NAME) st) CACHE_NAME = map_of st CACHE_NAME"
    by (induction st) auto
  then show ?thesis
    by (simp add: activate_storage named_cache_def)
qed

section \<open>Pass-through\<close>

text \<open>
  C1. A request whose method is not GET (POST, PUT, DELETE, PATCH, ...) is not
  intercepted: the handler supplies no response, performs no operation on its host,
  so it neither reads nor writes a cache, and leaves the cache storage as it was. The
  browser sends the request to the network itself.
\<close>

theorem non_get_passes_through:
  assumes "method rq \<noteq> ''GET''"
  shows "fetch_handler self_origin net rq st = \<lparr>outcome = NotIntercepted, storage = st, trace = []\<rparr>
    \<and> resolve (outcome (fetch_handler self_origin net rq st)) = PassThrough"
  using assms by (simp add: fetch_handler_def)

theorem non_get_passes_through_witness:
  "resolve (outcome (fetch_handler sample_origin offline
       (sample_request ''POST'' ''/api/generate-report'' ''cors'') [])) = PassThrough
   \<and> trace (fetch_handler sample_origin (serving (sample_response 200 ''x''))
       (sample_request ''PUT'' ''/index.html'' ''cors'') [(CACHE_NAME, [])]) = []
   \<and> storage (fetch_handler sample_origin (serving (sample_response 200 ''x''))
       (sample_request ''DELETE'' ''/index.html'' ''navigate'') [(CACHE_NAME, [])]) = [(CACHE_NAME, [])]
   \<and> outcome (fetch_handler sample_origin (serving (sample_response 200 ''x''))
       (sample_request ''PATCH'' ''/index.html'' ''cors'') []) = NotIntercepted"
proof -
  have post: "method (sample_request ''POST'' ''/api/generate-report'' ''cors'') \<noteq> ''GET''"
    and put: "method (sample_request ''PUT'' ''/index.html'' ''cors'') \<noteq> ''GET''"
    and del: "method (sample_request ''DELETE'' ''/index.html'' ''navigate'') \<noteq> ''GET''"
    and patch: "method (sample_request ''PATCH'' ''/index.html'' ''cors'') \<noteq> ''GET''"
    by (simp_all add: sample_request_def)
  show ?thesis
    using non_get_passes_through[OF post, of sample_origin offline "[]"]
      non_get_passes_through[OF put, of sample_origin "serving (sample_response 200 ''x'')" "[(CACHE_NAME, [])]"]
      non_get_passes_through[OF del, of sample_origin "serving (sample_response 200 ''x'')" "[(CACHE_NAME, [])]"]
      non_get_passes_through[OF patch, of sample_origin "serving (sample_response 200 ''x'')" "[]"]
    by simp
qed

text \<open>
  C7. A request whose path starts with \<open>/api/\<close> is not intercepted, whatever
  its method: no response is supplied, no cache is read or written, and the request goes
  to the network as it is.
\<close>

theorem api_passes_through:
  assumes "prefix ''/api/'' (pathname (url rq))"
  shows "fetch_handler self_origin net rq st = \<lparr>outcome = NotIntercepted, storage = st, trace = []\<rparr>
    \<and> resolve (outcome (fetch_handler self_origin net rq st)) = PassThrough"
  using assms by (simp add: fetch_handler_def)

theorem api_passes_through_witness:
  "fetch_handler sample_origin (serving (sample_response 200 ''{}''))
       (sample_request ''GET'' ''/api/reports'' ''cors'') [(CACHE_NAME, [])]
     = \<lparr>outcome = NotIntercepted, storage = [(CACHE_NAME, [])], trace = []\<rparr>
   \<and> resolve (outcome (fetch_handler sample_origin offline
       (sample_request ''POST'' ''/api/generate-report'' ''cors'') [])) = PassThrough"
proof -
  have get: "prefix ''/api/'' (pathname (url (sample_request ''GET'' ''/api/reports'' ''cors'')))"
    and post: "prefix ''/api/'' (pathname (url (sample_request ''POST'' ''/api/generate-report'' ''cors'')))"
    by (simp_all add: sample_request_def)
  show ?thesis
    using api_passes_through[OF get, of sample_origin "serving (sample_response 200 ''{}'')" "[(CACHE_NAME, [])]"]
      api_passes_through[OF post, of sample_origin offline "[]"]
    by simp
qed

section \<open>Network first, for navigations\<close>

text \<open>
  C3. A navigation GET request outside \<open>/api/\<close> whose network fetch fails is answered
  with the cached response for that request when there is one, otherwise with the
  cached response for the root path \<open>/\<close> when there is one, and otherwise with
  \<open>undefined\<close>, which the host turns into a failed request. Nothing is written.
\<close>

theorem navigation_offline_fallback:
  assumes "method rq = ''GET''"
    and "\<not> prefix ''/api/'' (pathname (url rq))"
    and "mode rq = ''navigate''"
    and "net rq = Rejected e"
  shows "outcome (fetch_handler self_origin net rq st) =
           RespondWith (Fulfilled
             (case caches_match st rq of
                Some r \<Rightarrow> Some r
              | None \<Rightarrow> caches_match st (request_of_path self_origin ''/'')))
    \<and> resolve (outcome (fetch_handler self_origin net rq st)) =
           (case caches_match st rq of
              Some r \<Rightarrow> Served r
            | None \<Rightarrow>
                (case caches_match st (request_of_path self_origin ''/'') of
                   Some root \<Rightarrow> Served root
                 | None \<Rightarrow> NetworkError))
    \<and> storage (fetch_handler self_origin net rq st) = st"
  using assms by (simp add: fetch_handler_def network_first_def split: option.splits)

theorem navigation_offline_fallback_witness:
  "resolve (outcome (fetch_handler sample_origin offline (sample_request ''GET'' ''/dashboard'' ''navigate'')
       [(CACHE_NAME, [(request_of_path sample_origin ''/'', sample_response 200 ''shell'')])]))
     = Served (sample_response 200 ''shell'')
   \<and> resolve (outcome (fetch_handler sample_origin offline (sample_request ''GET'' ''/dashboard'' ''navigate'')
       [(CACHE_NAME, [(request_of_path sample_origin ''/'', sample_response 200 ''shell''),
                      (sample_request ''GET'' ''/dashboard'' ''navigate'', sample_response 200 ''board'')])]))
     = Served (sample_response 200 ''board'')
   \<and> resolve (outcome (fetch_handler sample_origin offline (sample_request ''GET'' ''/dashboard'' ''navigate'') []))
     = NetworkError"
proof -
  let ?rq = "sample_request ''GET'' ''/dashboard'' ''navigate''"
  have get: "method ?rq = ''GET''"
    and page: "\<not> prefix ''/api/'' (pathname (url ?rq))"
    and nav: "mode ?rq = ''navigate''"
    and down: "offline ?rq = Rejected TypeError"
    by (simp_all add: sample_request_def offline_def)
  note fallback = navigation_offline_fallback[where net = offline and self_origin = sample_origin,
      OF get page nav down]
  show ?thesis
    using fallback[of "[(CACHE_NAME, [(request_of_path sample_origin ''/'', sample_response 200 ''shell'')])]"]
      fallback[of "[(CACHE_NAME, [(request_of_path sample_origin ''/'', sample_response 200 ''shell''),
                      (sample_request ''GET'' ''/dashboard'' ''navigate'', sample_response 200 ''board'')])]"]
      fallback[of "[]"]
    by (simp add: cache_match_def request_matches_def request_of_path_def sample_request_def)
qed

section \<open>Stale while revalidate, for everything else\<close>

text \<open>
  C8. A stale-while-revalidate request (a GET outside \<open>/api/\<close> that is not a
  navigation) with no cached entry and a failing network fetch ends normally: the
  promise given to \<open>respondWith\<close> is fulfilled with an absent response, not rejected,
  after one cache lookup and one fetch, and the storage is unchanged. The page sees a
  failed load.
\<close>

theorem swr_miss_offline_absent:
  assumes "method rq = ''GET''"
    and "\<not> prefix ''/api/'' (pathname (url rq))"
    and "mode rq \<noteq> ''navigate''"
    and "caches_match st rq = None"
    and "net rq = Rejected e"
  shows "fetch_handler self_origin net rq st =
           \<lparr>outcome = RespondWith (Fulfilled None), storage = st,
            trace = [CachesMatch rq, NetFetch rq, Settled]\<rparr>
    \<and> resolve (outcome (fetch_handler self_origin net rq st)) = NetworkError"
  using assms by (simp add: fetch_handler_def stale_while_revalidate_def)

theorem swr_miss_offline_absent_witness:
  "fetch_handler sample_origin offline (sample_request ''GET'' ''/styles/app.css'' ''no-cors'') [] =
     \<lparr>outcome = RespondWith (Fulfilled None), storage = [],
      trace = [CachesMatch (sample_request ''GET'' ''/styles/app.css'' ''no-cors''),
               NetFetch (sample_request ''GET'' ''/styles/app.css'' ''no-cors''), Settled]\<rparr>"
proof -
  let ?rq = "sample_request ''GET'' ''/styles/app.css'' ''no-cors''"
  have get: "method ?rq = ''GET''"
    and asset: "\<not> prefix ''/api/'' (pathname (url ?rq))"
    and sub: "mode ?rq \<noteq> ''navigate''"
    and miss: "caches_match [] ?rq = None"
    and down: "offline ?rq = Rejected TypeError"
    by (simp_all add: sample_request_def offline_def)
  from swr_miss_offline_absent[where net = offline and self_origin = sample_origin,
      OF get asset sub miss down]
  show ?thesis by simp
qed




section \<open>What is written to the cache\<close>




section \<open>Install\<close>




section \<open>Activate\<close>

text \<open>
  C6. After the activate handler, a cache that existed before is gone exactly when its
  name differs from \<open>CACHE_NAME\<close>; the caches of that name are kept with their content,
  and the handler's promise is fulfilled. With the caches \<open>celesys-ai-v1\<close> and
  \<open>celesys-ai-v2\<close> only \<open>celesys-ai-v2\<close> remains.
\<close>

theorem activate_keeps_only_current:
  "(\<forall>n \<in> set (caches_keys st).
      (n \<notin> set (caches_keys (storage (activate st)))) = (n \<noteq> CACHE_NAME))
   \<and> storage (activate st) = filter (\<lambda>(n, c). n = CACHE_NAME) st
   \<and> outcome (activate st) = Fulfilled ()"
proof -
  have "outcome (activate st) = Fulfilled ()"
    by (simp add: activate_def Let_def)
  then show ?thesis
    by (auto simp: activate_storage caches_keys_def)
qed

theorem activate_keeps_only_current_witness:
  "caches_keys (storage (activate
       [(''celesys-ai-v1'', [(request_of_path sample_origin ''/'', sample_response 200 ''old'')]),
        (''celesys-ai-v2'', [(request_of_path sample_origin ''/'', sample_response 200 ''new'')])]))
     = [''celesys-ai-v2'']
   \<and> ''celesys-ai-v1'' \<notin> set (caches_keys (storage (activate
       [(''celesys-ai-v1'', [(request_of_path sample_origin ''/'', sample_response 200 ''old'')]),
        (''celesys-ai-v2'', [(request_of_path sample_origin ''/'', sample_response 200 ''new'')])])))
   \<and> storage (activate
       [(''celesys-ai-v1'', [(request_of_path sample_origin ''/'', sample_response 200 ''old'')]),
        (''celesys-ai-v2'', [(request_of_path sample_origin ''/'', sample_response 200 ''new'')])])
     = [(''celesys-ai-v2'', [(request_of_path sample_origin ''/'', sample_response 200 ''new'')])]"
  using activate_keeps_only_current[of
      "[(''celesys-ai-v1'', [(request_of_path sample_origin ''/'', sample_response 200 ''old'')]),
        (''celesys-ai-v2'', [(request_of_path sample_origin ''/'', sample_response 200 ''new'')])]"]
  by (simp add: CACHE_NAME_def caches_keys_def)

section \<open>The invariant of the named cache\<close>

lemma manifest_keys_cacheable:
  assumes "p \<in> set STATIC_ASSETS"
  shows "cacheable_key (request_of_path self_origin p)"
  using assms by (auto simp: STATIC_ASSETS_def cacheable_key_def request_of_path_def)

lemma install_preserves_inv:
  assumes "named_cache_inv st"
  shows "named_cache_inv (storage (install self_origin net st))"
proof -
  have "list_all (\<lambda>(k, v). cacheable_key k)
      (put_all (map (\<lambda>p. (request_of_path self_origin p, net (request_of_path self_origin p))) STATIC_ASSETS)
         (named_cache st))"
    using assms by (intro put_all_keys) (auto simp: named_cache_inv_def manifest_keys_cacheable)
  then show ?thesis
    using assms by (simp add: named_cache_inv_def install_named_cache)
qed

lemma open_then_put_preserves_inv:
  assumes "named_cache_inv st" and "cacheable_key rq"
  shows "named_cache_inv (fst (open_then_put rq cl st))"
proof (cases "status cl = 206")
  case True
  then show ?thesis
    using assms by (simp add: named_cache_inv_def open_then_put_rejected)
next
  case False
  then show ?thesis
    using assms by (simp add: named_cache_inv_def open_then_put_stored cacheable_key_def list_all_iff)
qed

lemma fetch_preserves_inv:
  assumes "named_cache_inv st"
  shows "named_cache_inv (storage (fetch_handler self_origin net rq st))"
proof (cases "method rq = ''GET'' \<and> \<not> prefix ''/api/'' (pathname (url rq))")
  case False
  then show ?thesis
    using assms by (auto simp: fetch_handler_def)
next
  case True
  then have key: "cacheable_key rq"
    by (simp add: cacheable_key_def)
  show ?thesis
  proof (cases "net rq")
    case (Fulfilled resp)
    then have "storage (fetch_handler self_origin net rq st) = fst (open_then_put rq resp st)"
      using True by (simp add: fetch_handler_def swr_storage_on_success network_first_on_success)
    then show ?thesis
      using assms key by (simp add: open_then_put_preserves_inv)
  next
    case (Rejected e)
    then have "storage (fetch_handler self_origin net rq st) = st"
      using True
      by (simp add: fetch_handler_def network_first_def stale_while_revalidate_def Let_def
          split: option.splits)
    then show ?thesis
      using assms by simp
  qed
qed

lemma handle_preserves_inv:
  assumes "named_cache_inv st"
  shows "named_cache_inv (handle self_origin ev st)"
proof (cases ev)
  case (Install net)
  then show ?thesis using assms by (simp add: install_preserves_inv)
next
  case Activate
  then show ?thesis using assms by (simp add: named_cache_inv_def named_cache_activate)
next
  case (Fetch net rq)
  then show ?thesis using assms by (simp add: fetch_preserves_inv)
qed

text \<open>
  C2. In every state reachable through install, activate and fetch events, every key of
  the named cache is a GET request whose path does not start with \<open>/api/\<close>.
\<close>

theorem named_cache_invariant:
  assumes "reachable self_origin st"
  shows "\<forall>(k, v) \<in> set (named_cache st). method k = ''GET'' \<and> \<not> prefix ''/api/'' (pathname (url k))"
proof -
  have "named_cache_inv st"
    using assms
  proof (induction rule: reachable.induct)
    case (initial st)
    then show ?case by (simp add: named_cache_inv_def named_cache_absent)
  next
    case (step st ev)
    then show ?case by (simp add: handle_preserves_inv)
  qed
  then show ?thesis
    by (simp add: named_cache_inv_def cacheable_key_def list_all_iff)
qed

theorem named_cache_invariant_witness:
  "reachable sample_origin
     (handle sample_origin Activate
       (handle sample_origin (Fetch (serving (sample_response 200 ''page'')) (sample_request ''GET'' ''/dashboard'' ''navigate''))
         (handle sample_origin (Install (serving (sample_response 200 ''asset''))) [])))
   \<and> map fst (named_cache
     (handle sample_origin Activate
       (handle sample_origin (Fetch (serving (sample_response 200 ''page'')) (sample_request ''GET'' ''/dashboard'' ''navigate''))
         (handle sample_origin (Install (serving (sample_response 200 ''asset''))) []))))
     = map (request_of_path sample_origin) STATIC_ASSETS @ [sample_request ''GET'' ''/dashboard'' ''navigate'']
   \<and> list_all (\<lambda>(k, v). method k = ''GET'' \<and> \<not> prefix ''/api/'' (pathname (url k)))
     (named_cache
     (handle sample_origin Activate
       (handle sample_origin (Fetch (serving (sample_response 200 ''page'')) (sample_request ''GET'' ''/dashboard'' ''navigate''))
         (handle sample_origin (Install (serving (sample_response 200 ''asset''))) []))))"
proof -
  let ?st = "handle sample_origin Activate
       (handle sample_origin (Fetch (serving (sample_response 200 ''page'')) (sample_request ''GET'' ''/dashboard'' ''navigate''))
         (handle sample_origin (Install (serving (sample_response 200 ''asset''))) []))"
  have fresh: "CACHE_NAME \<notin> set (caches_keys [])"
    by (simp add: caches_keys_def)
  have reach: "reachable sample_origin ?st"
    by (intro reachable.step reachable.initial fresh)
  have keys: "map fst (named_cache ?st)
      = map (request_of_path sample_origin) STATIC_ASSETS @ [sample_request ''GET'' ''/dashboard'' ''navigate'']"
  proof -
    let ?rq = "sample_request ''GET'' ''/dashboard'' ''navigate''"
    let ?installed = "handle sample_origin (Install (serving (sample_response 200 ''asset''))) []"
    have empty: "named_cache [] = []"
      by (simp add: named_cache_def)
    have installed: "named_cache (storage (install sample_origin (serving (sample_response 200 ''asset'')) []))
        = map (\<lambda>p. (request_of_path sample_origin p, sample_response 200 ''asset'')) STATIC_ASSETS"
      by (simp add: install_named_cache empty STATIC_ASSETS_def addable_def serving_def
          sample_response_def request_of_path_def request_matches_def)
    have "named_cache ?st = named_cache (handle sample_origin (Fetch (serving (sample_response 200 ''page'')) ?rq) ?installed)"
      by (simp add: named_cache_activate)
    also have "\<dots> = filter (\<lambda>(k', v'). \<not> request_matches ?rq k') (named_cache ?installed)
        @ [(?rq, sample_response 200 ''page'')]"
      by (simp add: fetch_handler_def network_first_on_success[where resp = "sample_response 200 ''page''"]
          open_then_put_stored serving_def sample_request_def sample_response_def)
    finally show ?thesis
      by (simp add: installed STATIC_ASSETS_def request_matches_def request_of_path_def sample_request_def)
  qed
  show ?thesis
    using named_cache_invariant[OF reach] reach keys by (simp add: list_all_iff)
qed

section \<open>The lifetime of the fetch event\<close>

text \<open>
  C9. The fetch handler at a navigation that the network answers, and at a static asset
  that is cached and that the network answers: in both runs the promise given to
  \<open>respondWith\<close> settles before the cache is opened and written, and the handler
  never calls \<open>event.waitUntil\<close> for the write, unlike the install and activate
  handlers. The write is not sequenced before the end of the event.
\<close>

theorem fetch_write_after_settlement:
  "trace (fetch_handler sample_origin (serving (sample_response 200 ''page''))
       (sample_request ''GET'' ''/dashboard'' ''navigate'') [])
     = [NetFetch (sample_request ''GET'' ''/dashboard'' ''navigate''),
        Settled,
        CachesOpen CACHE_NAME,
        CachePut CACHE_NAME (sample_request ''GET'' ''/dashboard'' ''navigate'') (sample_response 200 ''page'')]
   \<and> trace (fetch_handler sample_origin (serving (sample_response 200 ''new''))
       (sample_request ''GET'' ''/icons/icon-192.png'' ''no-cors'')
       [(CACHE_NAME, [(sample_request ''GET'' ''/icons/icon-192.png'' ''no-cors'', sample_response 200 ''old'')])])
     = [CachesMatch (sample_request ''GET'' ''/icons/icon-192.png'' ''no-cors''),
        Settled,
        NetFetch (sample_request ''GET'' ''/icons/icon-192.png'' ''no-cors''),
        CachesOpen CACHE_NAME,
        CachePut CACHE_NAME (sample_request ''GET'' ''/icons/icon-192.png'' ''no-cors'') (sample_response 200 ''new'')]"
  by (simp add: fetch_handler_def network_first_def stale_while_revalidate_def open_then_put_def
      caches_open_def cache_put_def clone_def cache_match_def request_matches_def serving_def
      sample_request_def sample_response_def)

end
